theory Spec2Isabelle
  imports Complex_Main "HOL-Library.Sublist"
begin

section \<open>Values, errors and the outside world\<close>

text \<open>
  Bookmarks are read with \<^verbatim>\<open>json.load\<close>, so every value the program handles is a
  JSON value. A JSON object is kept as the association list of the loaded dict (keys in
  insertion order, looked up with \<open>map_of\<close>). Numbers are modelled as reals: the
  rounding of Python's floats is not part of this model. Strings are byte lists.
\<close>

datatype json =
    JNull
  | JBool bool
  | JNum real
  | JStr string
  | JArr "json list"
  | JObj "(string \<times> json) list"

text \<open>
  The exceptions the program can meet. \<open>RequestException\<close> stands for every transport
  error of \<^verbatim>\<open>requests.get\<close> (connection refused, timeout, invalid URL);
  \<open>LibraryError\<close> for an error raised inside shapely or pyproj.
\<close>

datatype py_error =
    AttributeError
  | KeyError
  | IndexError
  | TypeError
  | ValueError
  | ZeroDivisionError
  | RequestException
  | LibraryError

fun ebind :: "py_error + 'a \<Rightarrow> ('a \<Rightarrow> py_error + 'b) \<Rightarrow> py_error + 'b" where
  "ebind (Inl e) f = Inl e"
| "ebind (Inr x) f = f x"

record response =
  status_code :: int
  headers :: "string \<rightharpoonup> string"
  resp_content :: string

record parsed_url =
  hostname :: "string option"
  path :: string
  query :: string

text \<open>
  What the program takes from its libraries and from the network, as parameters:
  the HTTP client, \<^verbatim>\<open>urllib.parse\<close>, the formatting of values that are not strings,
  the \<^verbatim>\<open>:.2f\<close> format of a float, the projected length and area computed by
  shapely and pyproj, and folium's validation of locations.
\<close>

text \<open>
  A Python float: a finite value, modelled as a real, or a value that is not finite
  (\<open>inf\<close>, \<open>-inf\<close>, \<open>nan\<close>). Dividing by a constant keeps it so.
\<close>

datatype pyfloat = Finite real | NonFinite

fun float_div :: "pyfloat \<Rightarrow> real \<Rightarrow> pyfloat" where
  "float_div (Finite r) c = Finite (r / c)"
| "float_div NonFinite c = NonFinite"

record env =
  requests_get :: "json \<Rightarrow> py_error + response"
  urlparse :: "json \<Rightarrow> py_error + parsed_url"
  parse_qs :: "string \<Rightarrow> (string \<rightharpoonup> string list)"
  str_other :: "json \<Rightarrow> string"
  fmt2f :: "pyfloat \<Rightarrow> string"
  projected_length :: "(json \<times> json) list \<Rightarrow> py_error + pyfloat"
  projected_area :: "(json \<times> json) list \<Rightarrow> py_error + pyfloat"
  validate_location :: "json list \<Rightarrow> py_error option"
  validate_locations :: "json list list \<Rightarrow> py_error option"

subsection \<open>Python's operations on loaded values\<close>

text \<open>Truth value of a loaded value (\<^verbatim>\<open>if not content\<close>).\<close>

fun truthy :: "json \<Rightarrow> bool" where
  "truthy JNull = False"
| "truthy (JBool b) = b"
| "truthy (JNum r) = (r \<noteq> 0)"
| "truthy (JStr s) = (s \<noteq> [])"
| "truthy (JArr xs) = (xs \<noteq> [])"
| "truthy (JObj kvs) = (kvs \<noteq> [])"

text \<open>\<^verbatim>\<open>d.get(k, default)\<close>: only a dict has the method.\<close>

fun dict_get :: "json \<Rightarrow> string \<Rightarrow> json \<Rightarrow> py_error + json" where
  "dict_get (JObj kvs) k d = Inr (case map_of kvs k of None \<Rightarrow> d | Some v \<Rightarrow> v)"
| "dict_get v k d = Inl AttributeError"

text \<open>\<^verbatim>\<open>d[k]\<close> with a string key.\<close>

fun dict_item :: "json \<Rightarrow> string \<Rightarrow> py_error + json" where
  "dict_item (JObj kvs) k = (case map_of kvs k of None \<Rightarrow> Inl KeyError | Some v \<Rightarrow> Inr v)"
| "dict_item v k = Inl TypeError"

text \<open>\<^verbatim>\<open>x[0]\<close>: the keys of a loaded dict are strings, so \<open>0\<close> is never one.\<close>

fun subscript0 :: "json \<Rightarrow> py_error + json" where
  "subscript0 (JArr []) = Inl IndexError"
| "subscript0 (JArr (x # xs)) = Inr x"
| "subscript0 (JStr []) = Inl IndexError"
| "subscript0 (JStr (c # cs)) = Inr (JStr [c])"
| "subscript0 (JObj kvs) = Inl KeyError"
| "subscript0 v = Inl TypeError"

text \<open>Iteration: a list gives its elements, a string its characters, a dict its keys.\<close>

fun iter_json :: "json \<Rightarrow> py_error + json list" where
  "iter_json (JArr xs) = Inr xs"
| "iter_json (JStr s) = Inr (map (\<lambda>c. JStr [c]) s)"
| "iter_json (JObj kvs) = Inr (map (\<lambda>kv. JStr (fst kv)) kvs)"
| "iter_json v = Inl TypeError"

text \<open>\<^verbatim>\<open>a, b = x\<close>.\<close>

definition unpack_list2 :: "json list \<Rightarrow> py_error + (json \<times> json)" where
  "unpack_list2 xs = (case xs of [a, b] \<Rightarrow> Inr (a, b) | _ \<Rightarrow> Inl ValueError)"

definition unpack2 :: "json \<Rightarrow> py_error + (json \<times> json)" where
  "unpack2 x = ebind (iter_json x) unpack_list2"

text \<open>A comprehension \<^verbatim>\<open>[... for a, b in xs]\<close> over a Python list.\<close>

fun unpack_each :: "json list \<Rightarrow> py_error + (json \<times> json) list" where
  "unpack_each [] = Inr []"
| "unpack_each (x # xs) =
     ebind (unpack2 x) (\<lambda>ab. ebind (unpack_each xs) (\<lambda>r. Inr (ab # r)))"

definition unpack_pairs :: "json \<Rightarrow> py_error + (json \<times> json) list" where
  "unpack_pairs coordinates = ebind (iter_json coordinates) unpack_each"

text \<open>\<^verbatim>\<open>xs[i]\<close> on a Python list, \<open>i\<close> not negative.\<close>

definition list_index :: "'a list \<Rightarrow> nat \<Rightarrow> py_error + 'a" where
  "list_index xs i = (if i < length xs then Inr (xs ! i) else Inl IndexError)"

text \<open>How a value is written by an f-string or by \<^verbatim>\<open>str.format\<close>.\<close>

fun py_str :: "env \<Rightarrow> json \<Rightarrow> string" where
  "py_str env (JStr s) = s"
| "py_str env JNull = ''None''"
| "py_str env (JBool b) = (if b then ''True'' else ''False'')"
| "py_str env v = str_other env v"

text \<open>\<^verbatim>\<open>s.split(sep)\<close> with a separator of one character.\<close>

fun split_str :: "char \<Rightarrow> string \<Rightarrow> string list" where
  "split_str sep [] = [[]]"
| "split_str sep (c # cs) =
     (if c = sep then [] # split_str sep cs
      else (case split_str sep cs of
              [] \<Rightarrow> [[c]]
            | w # ws \<Rightarrow> (c # w) # ws))"

text \<open>\<^verbatim>\<open>base64.b64encode\<close> (RFC 4648, with padding), on the bytes' values.\<close>

definition b64_alphabet :: string where
  "b64_alphabet = ''ABCDEFGHIJKLMNOPQRSTUVWXYZabcdefghijklmnopqrstuvwxyz0123456789+/''"

definition b64_char :: "nat \<Rightarrow> char" where
  "b64_char n = b64_alphabet ! n"

fun b64_groups :: "nat list \<Rightarrow> string" where
  "b64_groups [] = []"
| "b64_groups [a] = [b64_char (a div 4), b64_char ((a mod 4) * 16), CHR ''='', CHR ''='']"
| "b64_groups [a, b] =
     [b64_char (a div 4), b64_char ((a mod 4) * 16 + b div 16),
      b64_char ((b mod 16) * 4), CHR ''='']"
| "b64_groups (a # b # c # r) =
     [b64_char (a div 4), b64_char ((a mod 4) * 16 + b div 16),
      b64_char ((b mod 16) * 4 + c div 64), b64_char (c mod 64)] @ b64_groups r"

definition b64encode :: "string \<Rightarrow> string" where
  "b64encode bs = b64_groups (map of_char bs)"

section \<open>Media resolver\<close>

definition fetch_image_data_uri :: "env \<Rightarrow> json \<Rightarrow> py_error + string" where
  "fetch_image_data_uri env url =
     ebind (requests_get env url) (\<lambda>response.
       if status_code response = 200 then
         (let content_type = (case headers response ''Content-Type'' of
                                None \<Rightarrow> '''' | Some v \<Rightarrow> v);
              data = b64encode (resp_content response)
          in Inr (''data:'' @ content_type @ '';base64,'' @ data))
       else Inr '''')"

definition extract_youtube_video_id :: "env \<Rightarrow> json \<Rightarrow> py_error + string option" where
  "extract_youtube_video_id env url =
     ebind (urlparse env url) (\<lambda>parsed_url.
       if hostname parsed_url = Some ''youtu.be'' then
         Inr (Some (drop 1 (path parsed_url)))
       else if hostname parsed_url = Some ''www.youtube.com''
             \<or> hostname parsed_url = Some ''youtube.com'' then
         (if path parsed_url = ''/watch'' then
            ebind (list_index
                     (case parse_qs env (query parsed_url) ''v'' of
                        None \<Rightarrow> [None]
                      | Some vs \<Rightarrow> map Some vs) 0) Inr
          else if prefix ''/embed/'' (path parsed_url) then
            ebind (list_index (split_str CHR ''/'' (path parsed_url)) 2)
              (\<lambda>s. Inr (Some s))
          else Inr None)
       else Inr None)"

definition get_youtube_thumbnail_data_uri :: "env \<Rightarrow> json \<Rightarrow> py_error + string" where
  "get_youtube_thumbnail_data_uri env video_url =
     ebind (extract_youtube_video_id env video_url) (\<lambda>video_id.
       case video_id of
         None \<Rightarrow> Inr ''''
       | Some vid \<Rightarrow>
           if vid \<noteq> [] then
             fetch_image_data_uri env
               (JStr (''https://img.youtube.com/vi/'' @ vid @ ''/hqdefault.jpg''))
           else Inr '''')"

section \<open>Popup content builder\<close>

definition nl :: string where
  "nl = [CHR 0x0A]"

definition spaces :: "nat \<Rightarrow> string" where
  "spaces n = replicate n CHR '' ''"

text \<open>The three f-string templates of \<^verbatim>\<open>create_bookmark_content\<close>.\<close>

definition video_fragment :: "string \<Rightarrow> string \<Rightarrow> string \<Rightarrow> string" where
  \<open>video_fragment title url img_data_uri =
     nl @ spaces 12 @ ''<div class="modal-content">'' @
     nl @ spaces 16 @ ''<h3>'' @ title @ ''</h3>'' @
     nl @ spaces 16 @ ''<a href="'' @ url @ ''" target="_blank">'' @
     nl @ spaces 20 @ ''<img src="'' @ img_data_uri @ ''" alt="'' @ title @
       ''" style="max-width:100%;">'' @
     nl @ spaces 16 @ ''</a>'' @
     nl @ spaces 16 @ ''<p>Click the image to watch the video.</p>'' @
     nl @ spaces 12 @ ''</div>'' @
     nl @ spaces 8\<close>

definition image_fragment :: "string \<Rightarrow> string \<Rightarrow> string" where
  \<open>image_fragment title img_data_uri =
     nl @ spaces 12 @ ''<div class="modal-content">'' @
     nl @ spaces 16 @ ''<h3>'' @ title @ ''</h3>'' @
     nl @ spaces 16 @ ''<img src="'' @ img_data_uri @ ''" alt="'' @ title @
       ''" style="max-width:100%;">'' @
     nl @ spaces 12 @ ''</div>'' @
     nl @ spaces 8\<close>

definition text_fragment :: "string \<Rightarrow> string \<Rightarrow> string" where
  \<open>text_fragment title txt =
     nl @ spaces 12 @ ''<div class="modal-content">'' @
     nl @ spaces 16 @ ''<h3>'' @ title @ ''</h3>'' @
     nl @ spaces 16 @ ''<p>'' @ txt @ ''</p>'' @
     nl @ spaces 12 @ ''</div>'' @
     nl @ spaces 8\<close>

definition create_bookmark_content :: "env \<Rightarrow> json \<Rightarrow> py_error + string" where
  "create_bookmark_content env content =
     (if \<not> truthy content then Inr ''''
      else
        ebind (dict_get content ''type'' JNull) (\<lambda>ty.
          if ty = JStr ''video'' then
            ebind (dict_item content ''url'') (\<lambda>url.
            ebind (get_youtube_thumbnail_data_uri env url) (\<lambda>img_data_uri.
            ebind (dict_get content ''title'' (JStr '''')) (\<lambda>title.
              Inr (video_fragment (py_str env title) (py_str env url) img_data_uri))))
          else if ty = JStr ''image'' then
            ebind (dict_item content ''url'') (\<lambda>url.
            ebind (fetch_image_data_uri env url) (\<lambda>img_data_uri.
            ebind (dict_get content ''title'' (JStr '''')) (\<lambda>title.
              Inr (image_fragment (py_str env title) img_data_uri))))
          else if ty = JStr ''text'' then
            ebind (dict_get content ''title'' (JStr '''')) (\<lambda>title.
            ebind (dict_get content ''text'' (JStr '''')) (\<lambda>txt.
              Inr (text_fragment (py_str env title) (py_str env txt))))
          else Inr ''''))"

text \<open>
  Follows the spec's words, not the source: the escaping that the spec asks of a
  title and a text before they are written into markup.
\<close>

definition spec_html_escape :: "string \<Rightarrow> string" where
  "spec_html_escape s =
     concat (map (\<lambda>c. if c = CHR ''&'' then ''&amp;''
                      else if c = CHR ''<'' then ''&lt;''
                      else if c = CHR ''>'' then ''&gt;''
                      else [c]) s)"

section \<open>Geometry metrics\<close>

text \<open>
  The comprehension builds the \<open>(lon, lat)\<close> tuples; shapely and pyproj project them
  to EPSG:3857 and measure (\<open>projected_length\<close>, \<open>projected_area\<close>); the function
  converts the unit.
\<close>

definition calculate_line_length :: "env \<Rightarrow> json \<Rightarrow> py_error + pyfloat" where
  "calculate_line_length env coordinates =
     ebind (unpack_pairs coordinates) (\<lambda>line.
     ebind (projected_length env line) (\<lambda>len.
       Inr (float_div len 1609.34)))"

definition calculate_polygon_area :: "env \<Rightarrow> json \<Rightarrow> py_error + pyfloat" where
  "calculate_polygon_area env coordinates =
     ebind (subscript0 coordinates) (\<lambda>ring.
     ebind (unpack_pairs ring) (\<lambda>polygon.
     ebind (projected_area env polygon) (\<lambda>area.
       Inr (float_div area 2590000))))"

section \<open>Feature renderer\<close>

text \<open>\<open>Icon icon prefix color icon_color\<close>, \<open>Popup html max_width\<close>.\<close>

datatype icon = Icon string string string string

datatype popup = Popup string nat

text \<open>
  The children added to the map:
  \<open>Marker location popup icon tooltip\<close>,
  \<open>PolyLine locations color weight opacity tooltip popup\<close>,
  \<open>Polygon locations color weight fill_color fill_opacity tooltip popup\<close>.
\<close>

datatype feature =
    Marker "json list" popup icon json
  | PolyLine "json list list" json json json json popup
  | Polygon "json list list" json json json json json popup

record nav_entry =
  lat :: json
  lon :: json
  zoom :: json
  tile_layer :: json

definition icon_map :: "(string \<times> string) list" where
  "icon_map =
     [(''video'', ''video-camera''),
      (''image'', ''camera''),
      (''text'', ''align-left''),
      (''info-sign'', ''info-sign'')]"

text \<open>A list or a dict is not hashable, so looking it up in \<open>icon_map\<close> raises.\<close>

fun create_custom_icon :: "json \<Rightarrow> py_error + icon" where
  "create_custom_icon (JStr s) =
     Inr (Icon (case map_of icon_map s of None \<Rightarrow> ''info-sign'' | Some v \<Rightarrow> v)
            ''fa'' ''blue'' ''#000'')"
| "create_custom_icon (JArr xs) = Inl TypeError"
| "create_custom_icon (JObj kvs) = Inl TypeError"
| "create_custom_icon v = Inr (Icon ''info-sign'' ''fa'' ''blue'' ''#000'')"

text \<open>\<^verbatim>\<open>sum(xs)\<close> starts from 0 and adds from the left; a bool counts as 0 or 1.\<close>

fun as_number :: "json \<Rightarrow> py_error + real" where
  "as_number (JNum r) = Inr r"
| "as_number (JBool b) = Inr (if b then 1 else 0)"
| "as_number v = Inl TypeError"

fun py_sum_from :: "real \<Rightarrow> json list \<Rightarrow> py_error + real" where
  "py_sum_from acc [] = Inr acc"
| "py_sum_from acc (x # xs) = ebind (as_number x) (\<lambda>r. py_sum_from (acc + r) xs)"

definition py_sum :: "json list \<Rightarrow> py_error + real" where
  "py_sum xs = py_sum_from 0 xs"

definition py_truediv :: "real \<Rightarrow> nat \<Rightarrow> py_error + real" where
  "py_truediv s n = (if n = 0 then Inl ZeroDivisionError else Inr (s / real n))"

fun unpack_lists :: "json list list \<Rightarrow> py_error + (json \<times> json) list" where
  "unpack_lists [] = Inr []"
| "unpack_lists (x # xs) =
     ebind (unpack_list2 x) (\<lambda>ab. ebind (unpack_lists xs) (\<lambda>r. Inr (ab # r)))"

definition folium_check :: "py_error option \<Rightarrow> (py_error + 'a) \<Rightarrow> py_error + 'a" where
  "folium_check v k = (case v of Some e \<Rightarrow> Inl e | None \<Rightarrow> k)"

text \<open>
  The popup of a line or a polygon: the measurement is appended to the content, or a
  minimal popup with the title is made when there is no content.
\<close>

definition measured_popup :: "env \<Rightarrow> string \<Rightarrow> json \<Rightarrow> string \<Rightarrow> string" where
  \<open>measured_popup env popup_content title measure_str =
     (if popup_content \<noteq> [] then popup_content @ ''<p>'' @ measure_str @ ''</p>''
      else ''<div class='modal-content'><h3>'' @ py_str env title @ ''</h3><p>'' @
           measure_str @ ''</p></div>'')\<close>

text \<open>
  The branches of \<^verbatim>\<open>add_bookmark_to_map\<close>. Each returns the location used for
  navigation, the map with the new child, and the lines printed.
\<close>

definition render_point ::
  "env \<Rightarrow> json \<Rightarrow> string \<Rightarrow> json \<Rightarrow> json \<Rightarrow> feature list
     \<Rightarrow> py_error + (json list \<times> feature list \<times> string list)" where
  "render_point env coordinates popup_content content title m =
     ebind (unpack2 coordinates) (\<lambda>(lon, lat).
       let location = [lat, lon] in
       ebind (dict_get content ''type'' (JStr ''info-sign'')) (\<lambda>icon_type.
       ebind (create_custom_icon icon_type) (\<lambda>ic.
       folium_check (validate_location env location)
         (Inr (location, m @ [Marker location (Popup popup_content 600) ic title], [])))))"

definition render_linestring ::
  "env \<Rightarrow> json \<Rightarrow> string \<Rightarrow> json \<Rightarrow> json \<Rightarrow> feature list
     \<Rightarrow> py_error + (json list \<times> feature list \<times> string list)" where
  "render_linestring env coordinates popup_content style title m =
     ebind (unpack_pairs coordinates) (\<lambda>pairs.
       let latlngs = map (\<lambda>(lon, lat). [lat, lon]) pairs in
       ebind (dict_get style ''color'' (JStr ''blue'')) (\<lambda>color.
       ebind (dict_get style ''weight'' (JNum 5)) (\<lambda>weight.
       ebind (dict_get style ''opacity'' (JNum 0.7)) (\<lambda>opacity.
       folium_check (validate_locations env latlngs)
         (ebind (calculate_line_length env coordinates) (\<lambda>length_in_miles.
            let length_str = ''Length: '' @ fmt2f env length_in_miles @ '' miles'';
                popup_content' = measured_popup env popup_content title length_str;
                mid_index = length latlngs div 2
            in ebind (list_index latlngs mid_index) (\<lambda>location.
                 Inr (location,
                      m @ [PolyLine latlngs color weight opacity title
                             (Popup popup_content' 600)],
                      []))))))))"

definition render_polygon ::
  "env \<Rightarrow> json \<Rightarrow> string \<Rightarrow> json \<Rightarrow> json \<Rightarrow> feature list
     \<Rightarrow> py_error + (json list \<times> feature list \<times> string list)" where
  "render_polygon env coordinates popup_content style title m =
     ebind (subscript0 coordinates) (\<lambda>ring.
     ebind (unpack_pairs ring) (\<lambda>pairs.
       let latlngs = map (\<lambda>(lon, lat). [lat, lon]) pairs in
       ebind (dict_get style ''color'' (JStr ''red'')) (\<lambda>color.
       ebind (dict_get style ''weight'' (JNum 2)) (\<lambda>weight.
       ebind (dict_get style ''fillColor'' (JStr ''red'')) (\<lambda>fill_color.
       ebind (dict_get style ''fillOpacity'' (JNum 0.5)) (\<lambda>fill_opacity.
       folium_check (validate_locations env latlngs)
         (ebind (calculate_polygon_area env coordinates) (\<lambda>area_in_sq_miles.
            let area_str = ''Area: '' @ fmt2f env area_in_sq_miles @ '' square miles'';
                popup_content' = measured_popup env popup_content title area_str;
                m' = m @ [Polygon latlngs color weight fill_color fill_opacity title
                            (Popup popup_content' 600)]
            in ebind (unpack_lists latlngs) (\<lambda>lls.
                 let lats = map fst lls; lons = map snd lls in
                 ebind (py_sum lats) (\<lambda>slat.
                 ebind (py_truediv slat (length lats)) (\<lambda>mlat.
                 ebind (py_sum lons) (\<lambda>slon.
                 ebind (py_truediv slon (length lons)) (\<lambda>mlon.
                   Inr ([JNum mlat, JNum mlon], m', []))))))))))))))"

definition add_bookmark_to_map ::
  "env \<Rightarrow> json \<Rightarrow> feature list \<Rightarrow> json list
     \<Rightarrow> py_error + (nav_entry \<times> feature list \<times> string list)" where
  "add_bookmark_to_map env bookmark m center =
     ebind (dict_get bookmark ''geometry'' (JObj [])) (\<lambda>geometry.
     ebind (dict_get geometry ''type'' JNull) (\<lambda>geom_type.
     ebind (dict_get geometry ''coordinates'' (JArr [])) (\<lambda>coordinates.
     ebind (dict_get bookmark ''tile_layer'' (JStr ''Positron'')) (\<lambda>tile_layer.
     ebind (dict_get bookmark ''title'' (JStr ''Untitled'')) (\<lambda>title.
     ebind (dict_get bookmark ''content'' (JObj [])) (\<lambda>content.
     ebind (create_bookmark_content env content) (\<lambda>popup_content.
     ebind (dict_get bookmark ''style'' (JObj [])) (\<lambda>style.
     ebind (if geom_type = JStr ''Point'' then
              render_point env coordinates popup_content content title m
            else if geom_type = JStr ''LineString'' then
              render_linestring env coordinates popup_content style title m
            else if geom_type = JStr ''Polygon'' then
              render_polygon env coordinates popup_content style title m
            else
              Inr (center, m, [''Unsupported geometry type: '' @ py_str env geom_type]))
       (\<lambda>(location, m', out).
     ebind (list_index location 0) (\<lambda>la.
     ebind (list_index location 1) (\<lambda>lo.
     ebind (dict_get bookmark ''zoom'' (JNum 13)) (\<lambda>z.
       Inr (\<lparr>lat = la, lon = lo, zoom = z, tile_layer = tile_layer\<rparr>, m', out)
     ))))))))))))"

section \<open>Page assembler\<close>

text \<open>Decimal writing of an index, as \<^verbatim>\<open>'{}'.format(i)\<close> gives it.\<close>

definition digit_char :: "nat \<Rightarrow> char" where
  "digit_char d = ''0123456789'' ! d"

fun string_of_nat :: "nat \<Rightarrow> string" where
  "string_of_nat n =
     (if n < 10 then [digit_char n]
      else string_of_nat (n div 10) @ [digit_char (n mod 10)])"

declare string_of_nat.simps [simp del]

text \<open>
  The loop over \<^verbatim>\<open>enumerate(bookmarks)\<close> that fills \<^verbatim>\<open>locations_js\<close>, a dict
  keyed by position, kept in insertion order; \<open>i\<close> is the index of the next bookmark.
\<close>

fun collect_locations ::
  "env \<Rightarrow> json list \<Rightarrow> nat \<Rightarrow> feature list \<Rightarrow> json list
     \<Rightarrow> py_error + ((nat \<times> nav_entry) list \<times> feature list \<times> string list)" where
  "collect_locations env [] i m center = Inr ([], m, [])"
| "collect_locations env (bookmark # rest) i m center =
     ebind (add_bookmark_to_map env bookmark m center) (\<lambda>(location_data, m', out).
     ebind (collect_locations env rest (Suc i) m' center) (\<lambda>(locs, m'', outs).
       Inr ((i, location_data) # locs, m'', out @ outs)))"

definition nav_link :: "nat \<Rightarrow> string \<Rightarrow> string" where
  \<open>nav_link i title =
     ''<a class="bookmark-link" href="#" onclick="zoomToLocation('' @ string_of_nat i @
     ''); return false;">'' @ title @ ''</a>''\<close>

text \<open>The generator joined into \<^verbatim>\<open>nav_links\<close>: one link per bookmark.\<close>

fun nav_link_items :: "env \<Rightarrow> json list \<Rightarrow> nat \<Rightarrow> py_error + string list" where
  "nav_link_items env [] i = Inr []"
| "nav_link_items env (bookmark # rest) i =
     ebind (dict_item bookmark ''title'') (\<lambda>title.
     ebind (nav_link_items env rest (Suc i)) (\<lambda>items.
       Inr (nav_link i (py_str env title) # items)))"

text \<open>The four tile layers: identifier, tiles, shown at the start.\<close>

definition tile_layers :: "(string \<times> string \<times> bool) list" where
  "tile_layers =
     [(''OpenStreetMap'', ''OpenStreetMap'', False),
      (''Positron'', ''CartoDB positron'', True),
      (''Dark Matter'', ''CartoDB dark_matter'', False),
      (''Esri Satellite'',
       ''https://server.arcgisonline.com/ArcGIS/rest/services/World_Imagery/MapServer/tile/{z}/{y}/{x}'',
       False)]"

text \<open>
  The assembled page. The script embeds \<^verbatim>\<open>json.dumps(locations_js)\<close>; the page keeps
  the dict itself. The constant style sheet and script text are not kept.
\<close>

record page =
  map_location :: "json list"
  map_zoom_start :: json
  map_tile_layers :: "(string \<times> string \<times> bool) list"
  features :: "feature list"
  locations_js :: "(nat \<times> nav_entry) list"
  nav_links :: string
  nav_html :: string
  printed :: "string list"

definition create_map :: "env \<Rightarrow> json list \<Rightarrow> json list \<Rightarrow> json \<Rightarrow> py_error + page" where
  \<open>create_map env bookmarks center zoom_start =
     folium_check (validate_location env center)
       (ebind (collect_locations env bookmarks 0 [] center) (\<lambda>(locs, m, out).
        ebind (nav_link_items env bookmarks 0) (\<lambda>items.
          let links = concat items in
          Inr \<lparr>map_location = center,
               map_zoom_start = zoom_start,
               map_tile_layers = tile_layers,
               features = m,
               locations_js = locs,
               nav_links = links,
               nav_html =
                 nl @ spaces 4 @ ''<div class="nav-pane">'' @
                 nl @ spaces 8 @ ''<h2>Bookmarks</h2>'' @
                 nl @ spaces 8 @ links @
                 nl @ spaces 4 @ ''</div>'' @
                 nl @ spaces 4,
               printed = out\<rparr>)))\<close>

section \<open>The measurements, modelled from the spec\<close>












text \<open>
  The number a string of decimal digits denotes, as the browser reads the argument
  of \<open>zoomToLocation\<close>.
\<close>

definition digit_value :: "char \<Rightarrow> nat" where
  "digit_value c = of_char c - 48"

definition decimal_value :: "string \<Rightarrow> nat" where
  "decimal_value s = foldl (\<lambda>acc c. 10 * acc + digit_value c) 0 s"

section \<open>A small world to run the program in\<close>

text \<open>
  One image that is served, one that is gone, every other host unreachable; the URLs
  of the three video forms parsed as \<^verbatim>\<open>urllib.parse\<close> parses them; a line of
  3218.68 metres and a polygon of 3885000 square metres.
\<close>

definition example_env :: env where
  "example_env =
     \<lparr>requests_get = (\<lambda>url.
        if url = JStr ''https://example.com/a.png'' then
          Inr \<lparr>status_code = 200,
               headers = [''Content-Type'' \<mapsto> ''image/png''],
               resp_content = ''abc''\<rparr>
        else if url = JStr ''https://example.com/gone.png'' then
          Inr \<lparr>status_code = 404, headers = Map.empty, resp_content = []\<rparr>
        else Inl RequestException),
      urlparse = (\<lambda>url.
        if url = JStr ''https://youtu.be/abc123'' then
          Inr \<lparr>hostname = Some ''youtu.be'', path = ''/abc123'', query = []\<rparr>
        else if url = JStr ''https://www.youtube.com/watch?v=abc123'' then
          Inr \<lparr>hostname = Some ''www.youtube.com'', path = ''/watch'', query = ''v=abc123''\<rparr>
        else if url = JStr ''https://youtube.com/embed/abc123'' then
          Inr \<lparr>hostname = Some ''youtube.com'', path = ''/embed/abc123'', query = []\<rparr>
        else if url = JStr ''https://example.com/video'' then
          Inr \<lparr>hostname = Some ''example.com'', path = ''/video'', query = []\<rparr>
        else Inl ValueError),
      parse_qs = (\<lambda>q. if q = ''v=abc123'' then [''v'' \<mapsto> [''abc123'']] else Map.empty),
      str_other = (\<lambda>v. ''?''),
      fmt2f = (\<lambda>r. if r = Finite 2 then ''2.00''
                   else if r = Finite (3 / 2) then ''1.50'' else ''0.00''),
      projected_length = (\<lambda>ps. if length ps < 2 then Inl LibraryError else Inr (Finite 3218.68)),
      projected_area = (\<lambda>ps. if length ps < 3 then Inl LibraryError else Inr (Finite 3885000)),
      validate_location = (\<lambda>l. None),
      validate_locations = (\<lambda>ls. if ls = [] then Some ValueError else None)\<rparr>"


definition example_point :: json where
  "example_point =
     JObj [(''title'', JStr ''Camp''),
           (''geometry'', JObj [(''type'', JStr ''Point''),
                               (''coordinates'', JArr [JNum (-110), JNum 39])])]"

definition example_line :: json where
  "example_line =
     JObj [(''title'', JStr ''Trail''),
           (''geometry'', JObj [(''type'', JStr ''LineString''),
                               (''coordinates'',
                                JArr [JArr [JNum 1, JNum 10], JArr [JNum 2, JNum 20],
                                      JArr [JNum 3, JNum 30]])]),
           (''content'', JObj [(''type'', JStr ''text''), (''title'', JStr ''T''),
                              (''text'', JStr ''hello'')]),
           (''zoom'', JNum 9)]"

definition example_line_plain :: json where
  "example_line_plain =
     JObj [(''title'', JStr ''Track''),
           (''geometry'', JObj [(''type'', JStr ''LineString''),
                               (''coordinates'',
                                JArr [JArr [JNum 1, JNum 10], JArr [JNum 2, JNum 20]])])]"

definition example_polygon :: json where
  "example_polygon =
     JObj [(''title'', JStr ''Park''),
           (''geometry'', JObj [(''type'', JStr ''Polygon''),
                               (''coordinates'',
                                JArr [JArr [JArr [JNum 0, JNum 0], JArr [JNum 4, JNum 0],
                                            JArr [JNum 4, JNum 2], JArr [JNum 0, JNum 0]],
                                      JArr [JArr [JNum 1, JNum 1], JArr [JNum 2, JNum 1],
                                            JArr [JNum 2, JNum 2], JArr [JNum 1, JNum 1]]])]),
           (''tile_layer'', JStr ''Esri Satellite'')]"

definition example_point_null_content :: json where
  "example_point_null_content =
     JObj [(''title'', JStr ''Camp''),
           (''geometry'', JObj [(''type'', JStr ''Point''),
                               (''coordinates'', JArr [JNum (-110), JNum 39])]),
           (''content'', JNull)]"

definition example_circle :: json where
  "example_circle =
     JObj [(''title'', JStr ''Ring''),
           (''geometry'', JObj [(''type'', JStr ''Circle''),
                               (''coordinates'', JArr [JNum 1, JNum 2])]),
           (''zoom'', JNum 7)]"

section \<open>Helper facts\<close>

lemma ebind_eq_Inr: "ebind m f = Inr y \<longleftrightarrow> (\<exists>x. m = Inr x \<and> f x = Inr y)"
  by (cases m) auto

lemma ebind_eq_Inl: "ebind m f = Inl e \<longleftrightarrow> m = Inl e \<or> (\<exists>x. m = Inr x \<and> f x = Inl e)"
  by (cases m) auto

lemma split_str_not_Nil: "split_str sep s \<noteq> []"
  by (induction s) (auto split: list.splits)

lemma hd_split_str: "hd (split_str sep s) = takeWhile (\<lambda>c. c \<noteq> sep) s"
  by (induction s) (auto split: list.splits simp: split_str_not_Nil)

lemma split_str_embed:
  "list_index (split_str CHR ''/'' (''/embed/'' @ rest)) 2
     = Inr (takeWhile (\<lambda>c. c \<noteq> CHR ''/'') rest)"
proof -
  obtain w ws where s: "split_str CHR ''/'' rest = w # ws"
    using split_str_not_Nil [of "CHR ''/''" rest] by (cases "split_str CHR ''/'' rest") auto
  then have "w = takeWhile (\<lambda>c. c \<noteq> CHR ''/'') rest"
    using hd_split_str [of "CHR ''/''" rest] by simp
  with s show ?thesis by (simp add: list_index_def)
qed

section \<open>Media resolver: fetching an image\<close>

text \<open>
  C1, as the code has it. When the request is answered, a status of 200 gives the data
  URI made of the declared content type and the base64 of the body, and any other
  status gives the empty string. When \<^verbatim>\<open>requests.get\<close> raises a transport error,
  nothing catches it: the function raises the same error.
\<close>

theorem fetch_image_data_uri_result:
  "(requests_get env url = Inr r \<and> status_code r = 200 \<longrightarrow>
      fetch_image_data_uri env url =
        Inr (''data:'' @ (case headers r ''Content-Type'' of None \<Rightarrow> [] | Some v \<Rightarrow> v)
               @ '';base64,'' @ b64encode (resp_content r))) \<and>
   (requests_get env url = Inr r \<and> status_code r \<noteq> 200 \<longrightarrow>
      fetch_image_data_uri env url = Inr []) \<and>
   (requests_get env url = Inl e \<longrightarrow> fetch_image_data_uri env url = Inl e)"
  by (simp add: fetch_image_data_uri_def)

text \<open>The three cases, run: an image that is served, one that is gone, a dead host.\<close>

theorem fetch_image_data_uri_result_witness:
  "fetch_image_data_uri example_env (JStr ''https://example.com/a.png'')
     = Inr ''data:image/png;base64,YWJj'' \<and>
   fetch_image_data_uri example_env (JStr ''https://example.com/gone.png'') = Inr [] \<and>
   fetch_image_data_uri example_env (JStr ''https://offline.example/a.png'')
     = Inl RequestException"
  using
    fetch_image_data_uri_result [of example_env "JStr ''https://example.com/a.png''"
      "\<lparr>status_code = 200, headers = [''Content-Type'' \<mapsto> ''image/png''],
        resp_content = ''abc''\<rparr>"]
    fetch_image_data_uri_result [of example_env "JStr ''https://example.com/gone.png''"
      "\<lparr>status_code = 404, headers = Map.empty, resp_content = []\<rparr>"]
    fetch_image_data_uri_result [of example_env "JStr ''https://offline.example/a.png''"
      _ RequestException]
  by (simp add: example_env_def b64encode_def b64_char_def b64_alphabet_def)

text \<open>
  C1 as the spec words it (never raises, a transport error gives the empty string)
  fails: with the host unreachable the call raises.
\<close>

theorem fetch_image_data_uri_raises:
  "fetch_image_data_uri example_env (JStr ''https://offline.example/a.png'')
     = Inl RequestException"
  by (simp add: fetch_image_data_uri_def example_env_def)

section \<open>Popup content of a text bookmark\<close>

lemma text_fragment_title: "sublist (''<h3>'' @ T @ ''</h3>'') (text_fragment T X)"
proof -
  have "text_fragment T X =
          (nl @ spaces 12 @ ''<div class=\"modal-content\">'' @ nl @ spaces 16)
          @ (''<h3>'' @ T @ ''</h3>'')
          @ (nl @ spaces 16 @ ''<p>'' @ X @ ''</p>'' @ nl @ spaces 12 @ ''</div>'' @ nl @ spaces 8)"
    by (simp add: text_fragment_def)
  then show ?thesis
    by (metis sublist_appendI)
qed

lemma text_fragment_text: "sublist (''<p>'' @ X @ ''</p>'') (text_fragment T X)"
proof -
  have "text_fragment T X =
          (nl @ spaces 12 @ ''<div class=\"modal-content\">'' @ nl @ spaces 16
             @ ''<h3>'' @ T @ ''</h3>'' @ nl @ spaces 16)
          @ (''<p>'' @ X @ ''</p>'')
          @ (nl @ spaces 12 @ ''</div>'' @ nl @ spaces 8)"
    by (simp add: text_fragment_def)
  then show ?thesis
    by (metis sublist_appendI)
qed

text \<open>
  C2, as the code has it. For a content dict whose type is \<open>text\<close>, with a title
  \<open>T\<close> and a text \<open>X\<close>, the fragment is the text template filled with \<open>T\<close> and
  \<open>X\<close> as they are: it contains \<open><h3>T</h3>\<close> and \<open><p>X</p>\<close>, and nothing is
  escaped.
\<close>

theorem create_bookmark_content_text:
  assumes "map_of kvs ''type'' = Some (JStr ''text'')"
    and "map_of kvs ''title'' = Some (JStr T)"
    and "map_of kvs ''text'' = Some (JStr X)"
  shows "create_bookmark_content env (JObj kvs) = Inr (text_fragment T X)
         \<and> sublist (''<h3>'' @ T @ ''</h3>'') (text_fragment T X)
         \<and> sublist (''<p>'' @ X @ ''</p>'') (text_fragment T X)"
proof -
  from assms(1) have "kvs \<noteq> []" by auto
  with assms have "create_bookmark_content env (JObj kvs) = Inr (text_fragment T X)"
    by (simp add: create_bookmark_content_def)
  then show ?thesis
    using text_fragment_title text_fragment_text by simp
qed

text \<open>The spec's own example, run.\<close>

theorem create_bookmark_content_text_witness:
  "create_bookmark_content example_env
     (JObj [(''type'', JStr ''text''), (''title'', JStr ''T''), (''text'', JStr ''hello'')])
     = Inr (text_fragment ''T'' ''hello'')
   \<and> sublist ''<h3>T</h3>'' (text_fragment ''T'' ''hello'')
   \<and> sublist ''<p>hello</p>'' (text_fragment ''T'' ''hello'')"
  using create_bookmark_content_text
    [of "[(''type'', JStr ''text''), (''title'', JStr ''T''), (''text'', JStr ''hello'')]"
        "''T''" "''hello''" example_env]
  by simp

text \<open>
  C2 as the spec words it (title and text HTML-escaped when they hold \<open><\<close> or
  \<open>&\<close>) fails: for the title \<open>a<b\<close> and the text \<open>x&y\<close> the fragment is not the
  one with the escaped strings, and it holds neither \<open>&lt;\<close> nor \<open>&amp;\<close>.
\<close>

theorem text_content_not_escaped:
  "create_bookmark_content example_env
     (JObj [(''type'', JStr ''text''), (''title'', JStr ''a<b''), (''text'', JStr ''x&y'')])
     = Inr (text_fragment ''a<b'' ''x&y'')
   \<and> text_fragment ''a<b'' ''x&y''
       \<noteq> text_fragment (spec_html_escape ''a<b'') (spec_html_escape ''x&y'')
   \<and> \<not> sublist ''&lt;'' (text_fragment ''a<b'' ''x&y'')
   \<and> \<not> sublist ''&amp;'' (text_fragment ''a<b'' ''x&y'')"
proof -
  have 1: "create_bookmark_content example_env
     (JObj [(''type'', JStr ''text''), (''title'', JStr ''a<b''), (''text'', JStr ''x&y'')])
     = Inr (text_fragment ''a<b'' ''x&y'')"
    by (simp add: create_bookmark_content_def)
  have 2: "text_fragment ''a<b'' ''x&y''
       \<noteq> text_fragment (spec_html_escape ''a<b'') (spec_html_escape ''x&y'')"
    by (simp add: text_fragment_def spec_html_escape_def)
  have 3: "\<not> sublist ''&lt;'' (text_fragment ''a<b'' ''x&y'')"
    by code_simp
  have 4: "\<not> sublist ''&amp;'' (text_fragment ''a<b'' ''x&y'')"
    by code_simp
  from 1 2 3 4 show ?thesis by blast
qed

section \<open>Media resolver: the video id of a URL\<close>

text \<open>
  C3. With the URL parsed by \<^verbatim>\<open>urlparse\<close> into host, path and query, the function
  returns an id for the three forms and \<open>None\<close> for every other host or path:
  for host \<open>youtu.be\<close> the path without its first character; for host
  \<open>www.youtube.com\<close> or \<open>youtube.com\<close> and path \<open>/watch\<close> the first value of the
  query parameter \<open>v\<close> (\<open>None\<close> when the query has none); for these hosts and a
  path \<open>/embed/<rest>\<close> the part of \<open>rest\<close> before its first slash; for these hosts
  and any other path \<open>None\<close>; for any other host \<open>None\<close>.
\<close>

theorem extract_youtube_video_id_shapes:
  assumes "urlparse env url = Inr p"
  shows
    "(hostname p = Some ''youtu.be'' \<longrightarrow>
        extract_youtube_video_id env url = Inr (Some (drop 1 (path p)))) \<and>
     (hostname p \<in> {Some ''www.youtube.com'', Some ''youtube.com''} \<and> path p = ''/watch'' \<longrightarrow>
        extract_youtube_video_id env url =
          (case parse_qs env (query p) ''v'' of
             None \<Rightarrow> Inr None
           | Some [] \<Rightarrow> Inl IndexError
           | Some (v # vs) \<Rightarrow> Inr (Some v))) \<and>
     (hostname p \<in> {Some ''www.youtube.com'', Some ''youtube.com''}
        \<and> path p = ''/embed/'' @ rest \<longrightarrow>
        extract_youtube_video_id env url
          = Inr (Some (takeWhile (\<lambda>c. c \<noteq> CHR ''/'') rest))) \<and>
     (hostname p \<in> {Some ''www.youtube.com'', Some ''youtube.com''}
        \<and> path p \<noteq> ''/watch'' \<and> \<not> prefix ''/embed/'' (path p) \<longrightarrow>
        extract_youtube_video_id env url = Inr None) \<and>
     (hostname p \<notin> {Some ''youtu.be'', Some ''www.youtube.com'', Some ''youtube.com''} \<longrightarrow>
        extract_youtube_video_id env url = Inr None)"
proof (intro conjI impI)
  assume "hostname p = Some ''youtu.be''"
  with assms show "extract_youtube_video_id env url = Inr (Some (drop 1 (path p)))"
    by (simp add: extract_youtube_video_id_def)
next
  assume "hostname p \<in> {Some ''www.youtube.com'', Some ''youtube.com''} \<and> path p = ''/watch''"
  with assms show "extract_youtube_video_id env url =
          (case parse_qs env (query p) ''v'' of
             None \<Rightarrow> Inr None
           | Some [] \<Rightarrow> Inl IndexError
           | Some (v # vs) \<Rightarrow> Inr (Some v))"
    by (auto simp: extract_youtube_video_id_def list_index_def split: option.splits list.splits)
next
  assume h: "hostname p \<in> {Some ''www.youtube.com'', Some ''youtube.com''}
        \<and> path p = ''/embed/'' @ rest"
  then have "prefix ''/embed/'' (path p)" and "path p \<noteq> ''/watch''"
    by auto
  with assms h show "extract_youtube_video_id env url
          = Inr (Some (takeWhile (\<lambda>c. c \<noteq> CHR ''/'') rest))"
    using split_str_embed [of rest]
    by (auto simp: extract_youtube_video_id_def)
next
  assume "hostname p \<in> {Some ''www.youtube.com'', Some ''youtube.com''}
        \<and> path p \<noteq> ''/watch'' \<and> \<not> prefix ''/embed/'' (path p)"
  with assms show "extract_youtube_video_id env url = Inr None"
    by (auto simp: extract_youtube_video_id_def)
next
  assume "hostname p \<notin> {Some ''youtu.be'', Some ''www.youtube.com'', Some ''youtube.com''}"
  with assms show "extract_youtube_video_id env url = Inr None"
    by (auto simp: extract_youtube_video_id_def)
qed

text \<open>The three forms of the spec and an unrelated URL, run.\<close>

theorem extract_youtube_video_id_shapes_witness:
  "extract_youtube_video_id example_env (JStr ''https://youtu.be/abc123'')
     = Inr (Some ''abc123'') \<and>
   extract_youtube_video_id example_env (JStr ''https://www.youtube.com/watch?v=abc123'')
     = Inr (Some ''abc123'') \<and>
   extract_youtube_video_id example_env (JStr ''https://youtube.com/embed/abc123'')
     = Inr (Some ''abc123'') \<and>
   extract_youtube_video_id example_env (JStr ''https://example.com/video'') = Inr None"
  using
    extract_youtube_video_id_shapes [of example_env "JStr ''https://youtu.be/abc123''"
      "\<lparr>hostname = Some ''youtu.be'', path = ''/abc123'', query = []\<rparr>"]
    extract_youtube_video_id_shapes [of example_env
      "JStr ''https://www.youtube.com/watch?v=abc123''"
      "\<lparr>hostname = Some ''www.youtube.com'', path = ''/watch'', query = ''v=abc123''\<rparr>"]
    extract_youtube_video_id_shapes [of example_env "JStr ''https://youtube.com/embed/abc123''"
      "\<lparr>hostname = Some ''youtube.com'', path = ''/embed/abc123'', query = []\<rparr>"
      "''abc123''"]
    extract_youtube_video_id_shapes [of example_env "JStr ''https://example.com/video''"
      "\<lparr>hostname = Some ''example.com'', path = ''/video'', query = []\<rparr>"]
  by (simp add: example_env_def)

section \<open>Feature renderer\<close>

lemma folium_check_eq_Inr: "folium_check v k = Inr y \<longleftrightarrow> v = None \<and> k = Inr y"
  by (cases v) (auto simp: folium_check_def)

subsection \<open>Unsupported geometry\<close>

text \<open>
  C4, as the code has it. Take a bookmark whose geometry type is none of \<open>Point\<close>,
  \<open>LineString\<close>, \<open>Polygon\<close> (a missing type reads as \<open>None\<close>). The popup content is
  built before the geometry is looked at. When it is built without an exception, and
  the fallback center has a latitude and a longitude, no feature is added to the map,
  the line \<open>Unsupported geometry type: ...\<close> is printed, and the navigation entry
  is the fallback center with the zoom (default 13) and the tile layer (default
  \<open>Positron\<close>) of the bookmark. When building the popup content raises, so does
  \<^verbatim>\<open>add_bookmark_to_map\<close>.
\<close>

theorem unsupported_geometry:
  assumes "dict_get (JObj kvs) ''geometry'' (JObj []) = Inr geometry"
    and "dict_get geometry ''type'' JNull = Inr geom_type"
    and "geom_type \<noteq> JStr ''Point''"
    and "geom_type \<noteq> JStr ''LineString''"
    and "geom_type \<noteq> JStr ''Polygon''"
    and "dict_get (JObj kvs) ''content'' (JObj []) = Inr content"
  shows
    "(create_bookmark_content env content = Inr popup_content \<and> center = clat # clon # rest \<longrightarrow>
        add_bookmark_to_map env (JObj kvs) m center =
          Inr (\<lparr>lat = clat, lon = clon,
                zoom = (case map_of kvs ''zoom'' of None \<Rightarrow> JNum 13 | Some z \<Rightarrow> z),
                tile_layer = (case map_of kvs ''tile_layer'' of
                                None \<Rightarrow> JStr ''Positron'' | Some t \<Rightarrow> t)\<rparr>,
               m,
               [''Unsupported geometry type: '' @ py_str env geom_type])) \<and>
     (create_bookmark_content env content = Inl e \<longrightarrow>
        add_bookmark_to_map env (JObj kvs) m center = Inl e)"
proof -
  from assms(2) obtain gkvs where g: "geometry = JObj gkvs"
    by (cases geometry) auto
  show ?thesis
    using assms g
    by (auto simp: add_bookmark_to_map_def list_index_def)
qed

text \<open>The spec's example, a bookmark of geometry type \<open>Circle\<close>, run.\<close>

theorem unsupported_geometry_witness:
  "add_bookmark_to_map example_env example_circle [] [JNum 39.54316, JNum (-110.38948)]
     = Inr (\<lparr>lat = JNum 39.54316, lon = JNum (-110.38948), zoom = JNum 7,
             tile_layer = JStr ''Positron''\<rparr>,
            [],
            [''Unsupported geometry type: Circle''])"
  using unsupported_geometry
    [of "[(''title'', JStr ''Ring''),
          (''geometry'', JObj [(''type'', JStr ''Circle''),
                              (''coordinates'', JArr [JNum 1, JNum 2])]),
          (''zoom'', JNum 7)]"
        "JObj [(''type'', JStr ''Circle''), (''coordinates'', JArr [JNum 1, JNum 2])]"
        "JStr ''Circle''" "JObj []" example_env "[]"
        "[JNum 39.54316, JNum (-110.38948)]" "JNum 39.54316" "JNum (-110.38948)" "[]" "[]"]
  by (simp add: example_circle_def create_bookmark_content_def)

text \<open>
  C4 as the spec words it (every such bookmark gets its entry, without crashing)
  fails: a \<open>Circle\<close> bookmark with an image whose host is unreachable raises.
\<close>

theorem unsupported_geometry_raises:
  "add_bookmark_to_map example_env
     (JObj [(''title'', JStr ''Ring''),
            (''geometry'', JObj [(''type'', JStr ''Circle''),
                                (''coordinates'', JArr [JNum 1, JNum 2])]),
            (''content'', JObj [(''type'', JStr ''image''),
                               (''url'', JStr ''https://offline.example/a.png''),
                               (''title'', JStr ''Photo'')])])
     [] [JNum 39.54316, JNum (-110.38948)]
   = Inl RequestException"
  by (simp add: add_bookmark_to_map_def create_bookmark_content_def fetch_image_data_uri_def
      example_env_def)

subsection \<open>A point without content, and with content null\<close>

text \<open>
  C10. Take a \<open>Point\<close> bookmark whose coordinates unpack into a longitude and a
  latitude. When the \<open>content\<close> key is absent, or is an empty dict, and folium accepts
  the location, the marker is added with the default \<open>info-sign\<close> icon and an empty
  popup. When the \<open>content\<close> key is present with the value null, the lookup of the
  content type on \<open>None\<close> raises \<open>AttributeError\<close>.
\<close>

theorem point_content_absent_or_null:
  assumes "dict_get (JObj kvs) ''geometry'' (JObj []) = Inr geometry"
    and "dict_get geometry ''type'' JNull = Inr (JStr ''Point'')"
    and "dict_get geometry ''coordinates'' (JArr []) = Inr coordinates"
    and "unpack2 coordinates = Inr (x, y)"
  shows
    "((map_of kvs ''content'' = None \<or> map_of kvs ''content'' = Some (JObj []))
        \<and> validate_location env [y, x] = None \<longrightarrow>
        add_bookmark_to_map env (JObj kvs) m center =
          Inr (\<lparr>lat = y, lon = x,
                zoom = (case map_of kvs ''zoom'' of None \<Rightarrow> JNum 13 | Some z \<Rightarrow> z),
                tile_layer = (case map_of kvs ''tile_layer'' of
                                None \<Rightarrow> JStr ''Positron'' | Some t \<Rightarrow> t)\<rparr>,
               m @ [Marker [y, x] (Popup [] 600) (Icon ''info-sign'' ''fa'' ''blue'' ''#000'')
                      (case map_of kvs ''title'' of None \<Rightarrow> JStr ''Untitled'' | Some t \<Rightarrow> t)],
               [])) \<and>
     (map_of kvs ''content'' = Some JNull \<longrightarrow>
        add_bookmark_to_map env (JObj kvs) m center = Inl AttributeError)"
proof -
  from assms(2) obtain gkvs where g: "geometry = JObj gkvs"
    by (cases geometry) auto
  show ?thesis
    using assms g
    by (auto simp: add_bookmark_to_map_def render_point_def create_bookmark_content_def
        folium_check_def list_index_def icon_map_def Let_def)
qed

text \<open>A point without content and the same point with content null, run.\<close>

theorem point_content_absent_or_null_witness:
  "add_bookmark_to_map example_env example_point [] [JNum 39.54316, JNum (-110.38948)]
     = Inr (\<lparr>lat = JNum 39, lon = JNum (-110), zoom = JNum 13,
             tile_layer = JStr ''Positron''\<rparr>,
            [Marker [JNum 39, JNum (-110)] (Popup [] 600)
               (Icon ''info-sign'' ''fa'' ''blue'' ''#000'') (JStr ''Camp'')],
            []) \<and>
   add_bookmark_to_map example_env example_point_null_content []
       [JNum 39.54316, JNum (-110.38948)]
     = Inl AttributeError"
  using
    point_content_absent_or_null
      [of "[(''title'', JStr ''Camp''),
            (''geometry'', JObj [(''type'', JStr ''Point''),
                                (''coordinates'', JArr [JNum (-110), JNum 39])])]"
          "JObj [(''type'', JStr ''Point''), (''coordinates'', JArr [JNum (-110), JNum 39])]"
          "JArr [JNum (-110), JNum 39]" "JNum (-110)" "JNum 39" example_env "[]"
          "[JNum 39.54316, JNum (-110.38948)]"]
    point_content_absent_or_null
      [of "[(''title'', JStr ''Camp''),
            (''geometry'', JObj [(''type'', JStr ''Point''),
                                (''coordinates'', JArr [JNum (-110), JNum 39])]),
            (''content'', JNull)]"
          "JObj [(''type'', JStr ''Point''), (''coordinates'', JArr [JNum (-110), JNum 39])]"
          "JArr [JNum (-110), JNum 39]" "JNum (-110)" "JNum 39" example_env "[]"
          "[JNum 39.54316, JNum (-110.38948)]"]
  by (simp add: example_point_def example_point_null_content_def example_env_def
      unpack2_def unpack_list2_def)

subsection \<open>The popup of a line\<close>

text \<open>
  C7. Whenever \<^verbatim>\<open>add_bookmark_to_map\<close> returns for a \<open>LineString\<close> bookmark, the
  map has one more child, a polyline, and its popup is the output of the content
  builder followed by \<open><p>Length: N.NN miles</p>\<close>, where \<open>N.NN\<close> is the
  \<^verbatim>\<open>:.2f\<close> format of \<^verbatim>\<open>calculate_line_length\<close> of the coordinates; when the
  content builder gave the empty string, the popup is the minimal one, with the title
  of the bookmark and the same paragraph.
\<close>

theorem linestring_popup:
  assumes "dict_get (JObj kvs) ''geometry'' (JObj []) = Inr geometry"
    and "dict_get geometry ''type'' JNull = Inr (JStr ''LineString'')"
    and "dict_get (JObj kvs) ''title'' (JStr ''Untitled'') = Inr title"
    and "add_bookmark_to_map env (JObj kvs) m center = Inr (entry, m', out)"
  shows
    "\<exists>content html coordinates len locs color weight opacity.
       dict_get (JObj kvs) ''content'' (JObj []) = Inr content \<and>
       create_bookmark_content env content = Inr html \<and>
       dict_get geometry ''coordinates'' (JArr []) = Inr coordinates \<and>
       calculate_line_length env coordinates = Inr len \<and>
       m' = m @ [PolyLine locs color weight opacity title
                   (Popup (if html \<noteq> []
                           then html @ ''<p>Length: '' @ fmt2f env len @ '' miles</p>''
                           else ''<div class='modal-content'><h3>'' @ py_str env title
                                @ ''</h3><p>Length: '' @ fmt2f env len @ '' miles</p></div>'')
                      600)]"
proof -
  from assms(2) obtain gkvs where g: "geometry = JObj gkvs"
    by (cases geometry) auto
  show ?thesis
    using assms g
    by (auto simp: add_bookmark_to_map_def render_linestring_def measured_popup_def
        ebind_eq_Inr folium_check_eq_Inr Let_def split: if_splits)
qed

text \<open>A line with a text content and a line without content, run.\<close>

theorem linestring_popup_witness:
  "add_bookmark_to_map example_env example_line [] [JNum 39.54316, JNum (-110.38948)]
     = Inr (\<lparr>lat = JNum 20, lon = JNum 2, zoom = JNum 9, tile_layer = JStr ''Positron''\<rparr>,
            [PolyLine [[JNum 10, JNum 1], [JNum 20, JNum 2], [JNum 30, JNum 3]]
               (JStr ''blue'') (JNum 5) (JNum 0.7) (JStr ''Trail'')
               (Popup (text_fragment ''T'' ''hello'' @ ''<p>Length: 2.00 miles</p>'') 600)],
            []) \<and>
   add_bookmark_to_map example_env example_line_plain [] [JNum 39.54316, JNum (-110.38948)]
     = Inr (\<lparr>lat = JNum 20, lon = JNum 2, zoom = JNum 13, tile_layer = JStr ''Positron''\<rparr>,
            [PolyLine [[JNum 10, JNum 1], [JNum 20, JNum 2]]
               (JStr ''blue'') (JNum 5) (JNum 0.7) (JStr ''Track'')
               (Popup ''<div class='modal-content'><h3>Track</h3><p>Length: 2.00 miles</p></div>''
                  600)],
            [])"
proof -
  have a: "add_bookmark_to_map example_env example_line [] [JNum 39.54316, JNum (-110.38948)]
     = Inr (\<lparr>lat = JNum 20, lon = JNum 2, zoom = JNum 9, tile_layer = JStr ''Positron''\<rparr>,
            [PolyLine [[JNum 10, JNum 1], [JNum 20, JNum 2], [JNum 30, JNum 3]]
               (JStr ''blue'') (JNum 5) (JNum 0.7) (JStr ''Trail'')
               (Popup (text_fragment ''T'' ''hello'' @ ''<p>Length: 2.00 miles</p>'') 600)],
            [])"
    by (simp add: add_bookmark_to_map_def render_linestring_def create_bookmark_content_def
        calculate_line_length_def unpack_pairs_def unpack2_def unpack_list2_def
        measured_popup_def folium_check_def list_index_def text_fragment_def nl_def
        example_line_def example_env_def)
  have b: "add_bookmark_to_map example_env example_line_plain [] [JNum 39.54316, JNum (-110.38948)]
     = Inr (\<lparr>lat = JNum 20, lon = JNum 2, zoom = JNum 13, tile_layer = JStr ''Positron''\<rparr>,
            [PolyLine [[JNum 10, JNum 1], [JNum 20, JNum 2]]
               (JStr ''blue'') (JNum 5) (JNum 0.7) (JStr ''Track'')
               (Popup ''<div class='modal-content'><h3>Track</h3><p>Length: 2.00 miles</p></div>''
                  600)],
            [])"
    by (simp add: add_bookmark_to_map_def render_linestring_def create_bookmark_content_def
        calculate_line_length_def unpack_pairs_def unpack2_def unpack_list2_def
        measured_popup_def folium_check_def list_index_def
        example_line_plain_def example_env_def)
  have g: "dict_get (JObj [(''title'', JStr ''Track''),
                (''geometry'', JObj [(''type'', JStr ''LineString''),
                                    (''coordinates'',
                                     JArr [JArr [JNum 1, JNum 10], JArr [JNum 2, JNum 20]])])])
              ''geometry'' (JObj [])
            = Inr (JObj [(''type'', JStr ''LineString''),
                         (''coordinates'',
                          JArr [JArr [JNum 1, JNum 10], JArr [JNum 2, JNum 20]])])"
    by simp
  have ty: "dict_get (JObj [(''type'', JStr ''LineString''),
                 (''coordinates'', JArr [JArr [JNum 1, JNum 10], JArr [JNum 2, JNum 20]])])
              ''type'' JNull
            = Inr (JStr ''LineString'')"
    by simp
  have ti: "dict_get (JObj [(''title'', JStr ''Track''),
                (''geometry'', JObj [(''type'', JStr ''LineString''),
                                    (''coordinates'',
                                     JArr [JArr [JNum 1, JNum 10], JArr [JNum 2, JNum 20]])])])
              ''title'' (JStr ''Untitled'')
            = Inr (JStr ''Track'')"
    by simp
  note linestring_popup [OF g ty ti b [unfolded example_line_plain_def]]
  with a b show ?thesis by simp
qed

subsection \<open>The navigation entry of a polygon\<close>

lemma unpack_lists_swap:
  "unpack_lists (map (\<lambda>(lon, lat). [lat, lon]) pairs) = Inr (map (\<lambda>(lon, lat). (lat, lon)) pairs)"
  by (induction pairs) (auto simp: unpack_list2_def)

lemma py_sum_from_numbers: "py_sum_from acc (map JNum rs) = Inr (acc + sum_list rs)"
  by (induction rs arbitrary: acc) (auto simp: algebra_simps)

lemma py_sum_numbers: "py_sum (map JNum rs) = Inr (sum_list rs)"
  by (simp add: py_sum_def py_sum_from_numbers)

lemma py_sum_comp: "py_sum (map (JNum \<circ> f) xs) = Inr (sum_list (map f xs))"
  using py_sum_numbers [of "map f xs"] by simp

lemma lats_of_numbers:
  "fst \<circ> (\<lambda>(lon, lat). (lat, lon)) \<circ> (\<lambda>(x, y). (JNum x, JNum y)) = JNum \<circ> snd"
  by (auto simp: fun_eq_iff)

lemma lons_of_numbers:
  "snd \<circ> (\<lambda>(lon, lat). (lat, lon)) \<circ> (\<lambda>(x, y). (JNum x, JNum y)) = JNum \<circ> fst"
  by (auto simp: fun_eq_iff)

text \<open>
  C8. Whenever \<^verbatim>\<open>add_bookmark_to_map\<close> returns for a \<open>Polygon\<close> bookmark whose first
  ring is a list of \<open>(lon, lat)\<close> pairs of numbers, the ring is not empty and the
  entry's \<open>lat\<close> and \<open>lon\<close> are the sum of the latitudes, and of the longitudes, of
  the listed vertices of that ring divided by their number.
\<close>

theorem polygon_navigation_entry:
  assumes "dict_get (JObj kvs) ''geometry'' (JObj []) = Inr geometry"
    and "dict_get geometry ''type'' JNull = Inr (JStr ''Polygon'')"
    and "dict_get geometry ''coordinates'' (JArr []) = Inr coordinates"
    and "subscript0 coordinates = Inr ring"
    and "unpack_pairs ring = Inr (map (\<lambda>(x, y). (JNum x, JNum y)) pts)"
    and "add_bookmark_to_map env (JObj kvs) m center = Inr (entry, m', out)"
  shows "pts \<noteq> []
         \<and> lat entry = JNum (sum_list (map snd pts) / real (length pts))
         \<and> lon entry = JNum (sum_list (map fst pts) / real (length pts))"
proof -
  from assms(2) obtain gkvs where g: "geometry = JObj gkvs"
    by (cases geometry) auto
  from assms g obtain popup_content style location where
    r: "render_polygon env coordinates popup_content style
          (case map_of kvs ''title'' of None \<Rightarrow> JStr ''Untitled'' | Some t \<Rightarrow> t) m
        = Inr (location, m', out)"
    and e: "list_index location 0 = Inr (lat entry)" "list_index location 1 = Inr (lon entry)"
    by (auto simp: add_bookmark_to_map_def ebind_eq_Inr)
  from r assms(4,5) obtain mlat mlon where
    loc: "location = [JNum mlat, JNum mlon]"
    and "py_truediv (sum_list (map snd pts)) (length pts) = Inr mlat"
    and "py_truediv (sum_list (map fst pts)) (length pts) = Inr mlon"
    by (auto simp: render_polygon_def ebind_eq_Inr folium_check_eq_Inr Let_def
        unpack_lists_swap lats_of_numbers lons_of_numbers py_sum_comp)
  then have "pts \<noteq> []" "mlat = sum_list (map snd pts) / real (length pts)"
    "mlon = sum_list (map fst pts) / real (length pts)"
    by (auto simp: py_truediv_def split: if_splits)
  with loc e show ?thesis
    by (simp add: list_index_def)
qed

text \<open>
  A polygon with a hole, run: the entry is the mean of the four listed vertices of the
  outer ring.
\<close>

theorem polygon_navigation_entry_witness:
  "add_bookmark_to_map example_env example_polygon [] [JNum 39.54316, JNum (-110.38948)]
     = Inr (\<lparr>lat = JNum (1 / 2), lon = JNum 2, zoom = JNum 13,
             tile_layer = JStr ''Esri Satellite''\<rparr>,
            [Polygon [[JNum 0, JNum 0], [JNum 0, JNum 4], [JNum 2, JNum 4], [JNum 0, JNum 0]]
               (JStr ''red'') (JNum 2) (JStr ''red'') (JNum 0.5) (JStr ''Park'')
               (Popup ''<div class='modal-content'><h3>Park</h3><p>Area: 1.50 square miles</p></div>''
                  600)],
            [])
   \<and> JNum (1 / 2) = JNum (sum_list (map snd [(0, 0), (4, 0), (4, 2), (0 :: real, 0 :: real)]) / real 4)
   \<and> JNum 2 = JNum (sum_list (map fst [(0, 0), (4, 0), (4, 2), (0 :: real, 0 :: real)]) / real 4)"
proof -
  let ?ring = "JArr [JArr [JNum 0, JNum 0], JArr [JNum 4, JNum 0],
                     JArr [JNum 4, JNum 2], JArr [JNum 0, JNum 0]]"
  let ?hole = "JArr [JArr [JNum 1, JNum 1], JArr [JNum 2, JNum 1],
                     JArr [JNum 2, JNum 2], JArr [JNum 1, JNum 1]]"
  let ?geometry = "JObj [(''type'', JStr ''Polygon''), (''coordinates'', JArr [?ring, ?hole])]"
  let ?kvs = "[(''title'', JStr ''Park''), (''geometry'', ?geometry),
               (''tile_layer'', JStr ''Esri Satellite'')]"
  let ?entry = "\<lparr>lat = JNum (1 / 2), lon = JNum 2, zoom = JNum 13,
                 tile_layer = JStr ''Esri Satellite''\<rparr>"
  have a: "add_bookmark_to_map example_env (JObj ?kvs) [] [JNum 39.54316, JNum (-110.38948)]
     = Inr (?entry,
            [Polygon [[JNum 0, JNum 0], [JNum 0, JNum 4], [JNum 2, JNum 4], [JNum 0, JNum 0]]
               (JStr ''red'') (JNum 2) (JStr ''red'') (JNum 0.5) (JStr ''Park'')
               (Popup ''<div class='modal-content'><h3>Park</h3><p>Area: 1.50 square miles</p></div>''
                  600)],
            [])"
    by (simp add: add_bookmark_to_map_def render_polygon_def create_bookmark_content_def
        calculate_polygon_area_def unpack_pairs_def unpack2_def unpack_list2_def
        measured_popup_def folium_check_def list_index_def py_sum_def py_truediv_def
        example_env_def)
  have g: "dict_get (JObj ?kvs) ''geometry'' (JObj []) = Inr ?geometry"
    by simp
  have ty: "dict_get ?geometry ''type'' JNull = Inr (JStr ''Polygon'')"
    by simp
  have co: "dict_get ?geometry ''coordinates'' (JArr []) = Inr (JArr [?ring, ?hole])"
    by simp
  have s0: "subscript0 (JArr [?ring, ?hole]) = Inr ?ring"
    by simp
  have up: "unpack_pairs ?ring
              = Inr (map (\<lambda>(x, y). (JNum x, JNum y)) [(0, 0), (4, 0), (4, 2), (0, 0)])"
    by (simp add: unpack_pairs_def unpack2_def unpack_list2_def)
  note polygon_navigation_entry [OF g ty co s0 up a]
  moreover have "JNum (1 / 2)
      = JNum (sum_list (map snd [(0, 0), (4, 0), (4, 2), (0 :: real, 0 :: real)]) / real 4)"
    by simp
  moreover have "JNum 2
      = JNum (sum_list (map fst [(0, 0), (4, 0), (4, 2), (0 :: real, 0 :: real)]) / real 4)"
    by simp
  ultimately show ?thesis
    using a unfolding example_polygon_def by blast
qed

section \<open>Geometry metrics under the measurements of the spec\<close>















section \<open>Page assembler: the navigation index and the navigation pane\<close>

lemma collect_locations_entries:
  "collect_locations env bs i m center = Inr (locs, m', out) \<Longrightarrow>
     length locs = length bs \<and> map fst locs = [i ..< i + length bs] \<and>
     (\<forall>k < length bs. \<exists>ma mb ob.
        add_bookmark_to_map env (bs ! k) ma center = Inr (snd (locs ! k), mb, ob))"
proof (induction bs arbitrary: i m locs m' out)
  case Nil
  then show ?case by simp
next
  case (Cons b bs)
  from Cons.prems obtain loc m1 o1 locs1 m2 o2 where
    b: "add_bookmark_to_map env b m center = Inr (loc, m1, o1)"
    and r: "collect_locations env bs (Suc i) m1 center = Inr (locs1, m2, o2)"
    and l: "locs = (i, loc) # locs1"
    by (auto simp: ebind_eq_Inr)
  note ih = Cons.IH [OF r]
  have "\<exists>ma mb ob. add_bookmark_to_map env ((b # bs) ! k) ma center
                     = Inr (snd (locs ! k), mb, ob)"
    if "k < length (b # bs)" for k
  proof (cases k)
    case 0
    with b l show ?thesis by auto
  next
    case (Suc j)
    with that ih l show ?thesis by auto
  qed
  moreover have "map fst locs = [i ..< i + length (b # bs)]"
  proof -
    have "[i ..< i + length (b # bs)] = i # [Suc i ..< Suc i + length bs]"
      using upt_conv_Cons [of i "i + length (b # bs)"] by simp
    moreover from ih have "map fst locs1 = [Suc i ..< Suc i + length bs]"
      by blast
    ultimately show ?thesis
      using l by (simp del: upt_Suc)
  qed
  ultimately show ?case
    using ih l by simp
qed

lemma nav_link_items_entries:
  "nav_link_items env bs i = Inr items \<Longrightarrow>
     length items = length bs \<and>
     (\<forall>k < length bs. \<exists>title.
        dict_item (bs ! k) ''title'' = Inr title \<and>
        items ! k = nav_link (i + k) (py_str env title))"
proof (induction bs arbitrary: i items)
  case Nil
  then show ?case by simp
next
  case (Cons b bs)
  from Cons.prems obtain title items1 where
    t: "dict_item b ''title'' = Inr title"
    and r: "nav_link_items env bs (Suc i) = Inr items1"
    and l: "items = nav_link i (py_str env title) # items1"
    by (auto simp: ebind_eq_Inr)
  note ih = Cons.IH [OF r]
  have "\<exists>title. dict_item ((b # bs) ! k) ''title'' = Inr title \<and>
                 items ! k = nav_link (i + k) (py_str env title)"
    if "k < length (b # bs)" for k
  proof (cases k)
    case 0
    with t l show ?thesis by auto
  next
    case (Suc j)
    with that ih l show ?thesis by auto
  qed
  then show ?case
    using ih l by simp
qed

lemma digit_value_digit_char: "d < 10 \<Longrightarrow> digit_value (digit_char d) = d"
proof -
  assume "d < 10"
  then have "d \<in> {0, 1, 2, 3, 4, 5, 6, 7, 8, 9}"
    by auto
  then show ?thesis
    by (auto simp: digit_value_def digit_char_def)
qed

lemma digit_char_digit: "d < 10 \<Longrightarrow> digit_char d \<in> set ''0123456789''"
proof -
  assume "d < 10"
  then have "d \<in> {0, 1, 2, 3, 4, 5, 6, 7, 8, 9}"
    by auto
  then show ?thesis
    by (auto simp: digit_char_def)
qed

lemma decimal_value_snoc: "decimal_value (s @ [c]) = 10 * decimal_value s + digit_value c"
  by (simp add: decimal_value_def)

lemma decimal_value_string_of_nat: "decimal_value (string_of_nat n) = n"
proof (induction n rule: string_of_nat.induct)
  case (1 n)
  show ?case
  proof (cases "n < 10")
    case True
    then show ?thesis
      using digit_value_digit_char [of n]
      by (subst string_of_nat.simps) (simp add: decimal_value_def)
  next
    case False
    have "decimal_value (string_of_nat n)
        = 10 * decimal_value (string_of_nat (n div 10)) + digit_value (digit_char (n mod 10))"
      using False by (subst string_of_nat.simps) (simp add: decimal_value_snoc)
    also have "\<dots> = 10 * (n div 10) + n mod 10"
      using "1.IH" [OF False] digit_value_digit_char [of "n mod 10"] by simp
    finally show ?thesis
      by simp
  qed
qed

lemma string_of_nat_digits: "set (string_of_nat n) \<subseteq> set ''0123456789''"
proof (induction n rule: string_of_nat.induct)
  case (1 n)
  show ?case
  proof (cases "n < 10")
    case True
    then show ?thesis
      using digit_char_digit [of n] by (subst string_of_nat.simps) simp
  next
    case False
    then show ?thesis
      using "1.IH" [OF False] digit_char_digit [of "n mod 10"]
      by (subst string_of_nat.simps) simp
  qed
qed

lemma create_map_parts:
  assumes "create_map env bookmarks center zoom_start = Inr page"
  shows \<open>\<exists>locs m out items.
    collect_locations env bookmarks 0 [] center = Inr (locs, m, out) \<and>
    nav_link_items env bookmarks 0 = Inr items \<and>
    locations_js page = locs \<and>
    nav_links page = concat items \<and>
    nav_html page =
       nl @ spaces 4 @ ''<div class="nav-pane">'' @
       nl @ spaces 8 @ ''<h2>Bookmarks</h2>'' @
       nl @ spaces 8 @ nav_links page @
       nl @ spaces 4 @ ''</div>'' @
       nl @ spaces 4\<close>
  using assms
  by (auto simp: create_map_def ebind_eq_Inr folium_check_eq_Inr Let_def)

lemma index_key:
  assumes "length locs = length bookmarks" and "map fst locs = [0 ..< length bookmarks]"
    and "j < length bookmarks"
  shows "fst (locs ! j) = j"
proof -
  from assms have "j < length locs"
    by simp
  then have "fst (locs ! j) = map fst locs ! j"
    by simp
  with assms show ?thesis
    by simp
qed

text \<open>
  C9. Whenever \<^verbatim>\<open>create_map\<close> returns a page for a list of \<open>n\<close> bookmarks, the
  navigation index has \<open>n\<close> entries, keyed \<open>0, ..., n - 1\<close> in this order, and entry
  \<open>k\<close> is the navigation entry \<^verbatim>\<open>add_bookmark_to_map\<close> returned for bookmark
  \<open>k\<close>. The navigation pane holds the concatenation of \<open>n\<close> links in the same
  order; link \<open>k\<close> is the anchor whose \<open>onclick\<close> is \<open>zoomToLocation(k)\<close>, with
  \<open>k\<close> written in decimal digits that read back as the key of entry \<open>k\<close>, and
  whose text is the title of bookmark \<open>k\<close>.
\<close>

theorem create_map_navigation_index:
  assumes "create_map env bookmarks center zoom_start = Inr page"
  shows
    \<open>length (locations_js page) = length bookmarks \<and>
     map fst (locations_js page) = [0 ..< length bookmarks] \<and>
     (\<forall>k < length bookmarks. \<exists>ma mb ob.
        add_bookmark_to_map env (bookmarks ! k) ma center
          = Inr (snd (locations_js page ! k), mb, ob)) \<and>
     (\<exists>items.
        nav_links page = concat items \<and>
        length items = length bookmarks \<and>
        (\<forall>k < length bookmarks. \<exists>title.
           dict_item (bookmarks ! k) ''title'' = Inr title \<and>
           items ! k =
             ''<a class="bookmark-link" href="#" onclick="zoomToLocation('' @
             string_of_nat k @ ''); return false;">'' @ py_str env title @ ''</a>'' \<and>
           set (string_of_nat k) \<subseteq> set ''0123456789'' \<and>
           decimal_value (string_of_nat k) = fst (locations_js page ! k))) \<and>
     nav_html page =
       nl @ spaces 4 @ ''<div class="nav-pane">'' @
       nl @ spaces 8 @ ''<h2>Bookmarks</h2>'' @
       nl @ spaces 8 @ nav_links page @
       nl @ spaces 4 @ ''</div>'' @
       nl @ spaces 4\<close>
proof -
  from create_map_parts [OF assms] obtain locs m out items where
    c: "collect_locations env bookmarks 0 [] center = Inr (locs, m, out)"
    and n: "nav_link_items env bookmarks 0 = Inr items"
    and l: "locations_js page = locs"
    and k: "nav_links page = concat items"
    and h: \<open>nav_html page =
       nl @ spaces 4 @ ''<div class="nav-pane">'' @
       nl @ spaces 8 @ ''<h2>Bookmarks</h2>'' @
       nl @ spaces 8 @ nav_links page @
       nl @ spaces 4 @ ''</div>'' @
       nl @ spaces 4\<close>
    by (elim exE conjE)
  note ce = collect_locations_entries [OF c]
  note ne = nav_link_items_entries [OF n]
  have key: "fst (locs ! j) = j" if "j < length bookmarks" for j
    using ce that by (intro index_key [of locs bookmarks j]) simp_all
  have links: \<open>\<exists>title.
           dict_item (bookmarks ! j) ''title'' = Inr title \<and>
           items ! j =
             ''<a class="bookmark-link" href="#" onclick="zoomToLocation('' @
             string_of_nat j @ ''); return false;">'' @ py_str env title @ ''</a>'' \<and>
           set (string_of_nat j) \<subseteq> set ''0123456789'' \<and>
           decimal_value (string_of_nat j) = fst (locations_js page ! j)\<close>
    if "j < length bookmarks" for j
  proof -
    from ne that obtain title where
      t: "dict_item (bookmarks ! j) ''title'' = Inr title"
      and i: "items ! j = nav_link j (py_str env title)"
      by auto
    have d: "decimal_value (string_of_nat j) = fst (locations_js page ! j)"
      using key [OF that] by (simp only: l decimal_value_string_of_nat)
    show ?thesis
      using t i [unfolded nav_link_def] string_of_nat_digits [of j] d
      by (intro exI [of _ title] conjI) (assumption+)
  qed
  show ?thesis
  proof (intro conjI)
    show "length (locations_js page) = length bookmarks"
      using ce by (simp add: l)
    show "map fst (locations_js page) = [0 ..< length bookmarks]"
      using ce by (simp add: l)
    show "\<forall>k < length bookmarks. \<exists>ma mb ob.
        add_bookmark_to_map env (bookmarks ! k) ma center
          = Inr (snd (locations_js page ! k), mb, ob)"
      using ce by (simp add: l)
    show \<open>\<exists>items.
        nav_links page = concat items \<and>
        length items = length bookmarks \<and>
        (\<forall>k < length bookmarks. \<exists>title.
           dict_item (bookmarks ! k) ''title'' = Inr title \<and>
           items ! k =
             ''<a class="bookmark-link" href="#" onclick="zoomToLocation('' @
             string_of_nat k @ ''); return false;">'' @ py_str env title @ ''</a>'' \<and>
           set (string_of_nat k) \<subseteq> set ''0123456789'' \<and>
           decimal_value (string_of_nat k) = fst (locations_js page ! k))\<close>
    proof (intro exI [of _ items] conjI allI impI)
      show "nav_links page = concat items"
        by (rule k)
      show "length items = length bookmarks"
        using ne by (rule conjunct1)
      show \<open>\<exists>title.
           dict_item (bookmarks ! j) ''title'' = Inr title \<and>
           items ! j =
             ''<a class="bookmark-link" href="#" onclick="zoomToLocation('' @
             string_of_nat j @ ''); return false;">'' @ py_str env title @ ''</a>'' \<and>
           set (string_of_nat j) \<subseteq> set ''0123456789'' \<and>
           decimal_value (string_of_nat j) = fst (locations_js page ! j)\<close>
        if "j < length bookmarks" for j
        using that by (rule links)
    qed
    show \<open>nav_html page =
       nl @ spaces 4 @ ''<div class="nav-pane">'' @
       nl @ spaces 8 @ ''<h2>Bookmarks</h2>'' @
       nl @ spaces 8 @ nav_links page @
       nl @ spaces 4 @ ''</div>'' @
       nl @ spaces 4\<close>
      by (rule h)
  qed
qed

text \<open>The spec's example, a point, a line and a polygon, run.\<close>

theorem create_map_navigation_index_witness:
  \<open>\<exists>page.
     create_map example_env [example_point, example_line, example_polygon]
       [JNum 39.54316, JNum (-110.38948)] (JNum 3) = Inr page \<and>
     map fst (locations_js page) = [0, 1, 2] \<and>
     nav_links page =
       ''<a class="bookmark-link" href="#" onclick="zoomToLocation(0); return false;">Camp</a>'' @
       ''<a class="bookmark-link" href="#" onclick="zoomToLocation(1); return false;">Trail</a>'' @
       ''<a class="bookmark-link" href="#" onclick="zoomToLocation(2); return false;">Park</a>''\<close>
proof -
  have \<open>\<exists>page.
     create_map example_env [example_point, example_line, example_polygon]
       [JNum 39.54316, JNum (-110.38948)] (JNum 3) = Inr page \<and>
     nav_links page =
       ''<a class="bookmark-link" href="#" onclick="zoomToLocation(0); return false;">Camp</a>'' @
       ''<a class="bookmark-link" href="#" onclick="zoomToLocation(1); return false;">Trail</a>'' @
       ''<a class="bookmark-link" href="#" onclick="zoomToLocation(2); return false;">Park</a>''\<close>
    by (simp add: create_map_def add_bookmark_to_map_def render_point_def
        render_linestring_def render_polygon_def create_bookmark_content_def
        calculate_line_length_def calculate_polygon_area_def unpack_pairs_def unpack2_def
        unpack_list2_def measured_popup_def folium_check_def list_index_def py_sum_def
        py_truediv_def icon_map_def text_fragment_def nl_def Let_def nav_link_def
        string_of_nat.simps digit_char_def
        example_point_def example_line_def example_polygon_def example_env_def)
  then obtain page where
    p: "create_map example_env [example_point, example_line, example_polygon]
          [JNum 39.54316, JNum (-110.38948)] (JNum 3) = Inr page"
    and l: \<open>nav_links page =
       ''<a class="bookmark-link" href="#" onclick="zoomToLocation(0); return false;">Camp</a>'' @
       ''<a class="bookmark-link" href="#" onclick="zoomToLocation(1); return false;">Trail</a>'' @
       ''<a class="bookmark-link" href="#" onclick="zoomToLocation(2); return false;">Park</a>''\<close>
    by blast
  from create_map_navigation_index [OF p]
  have i: "map fst (locations_js page) = [0, 1, 2]"
    by (simp add: numeral_2_eq_2)
  show ?thesis
    by (rule exI [of _ page]) (simp only: p i l simp_thms)
qed

end
